theory Spec2Isabelle
  imports Complex_Main "HOL-Library.Word" "HOL-Library.AList"
begin

section \<open>Values of the decoded reply\<close>

text \<open>
  The analyzer works on what \<^verbatim>\<open>json.loads\<close> returns: \<^verbatim>\<open>None\<close>, booleans, integers,
  floats, strings, lists and dicts. A Python \<^verbatim>\<open>str\<close> is a \<^typ>\<open>string\<close> whose characters are
  the code points below 256. A float is its binary64 bit pattern, so that a value is carried
  around exactly as the interpreter holds it. A dict is the list of its items in insertion
  order; its keys are distinct and a lookup is \<^const>\<open>map_of\<close>.
\<close>

datatype json =
    JNull
  | JBool bool
  | JInt int
  | JFloat "64 word"
  | JString string
  | JArray "json list"
  | JObject "(string \<times> json) list"

text \<open>The exceptions that the modelled code can meet.\<close>

datatype py_error = AttributeError | TypeError | JSONDecodeError | ValueError | RecursionError

text \<open>\<^verbatim>\<open>d.get(k, default)\<close> on a dict, and \<^verbatim>\<open>d.get(k)\<close>, whose default is \<^verbatim>\<open>None\<close>.\<close>

definition dict_get :: "(string \<times> json) list \<Rightarrow> string \<Rightarrow> json \<Rightarrow> json" where
  "dict_get d k dflt = (case map_of d k of None \<Rightarrow> dflt | Some v \<Rightarrow> v)"

subsection \<open>Built-in string operations\<close>

text \<open>
  \<^verbatim>\<open>str.isspace\<close> on one character, which is also the class \<^verbatim>\<open>\s\<close> of a \<^verbatim>\<open>str\<close> pattern and
  the set of characters that \<^verbatim>\<open>str.strip()\<close> removes: 9 to 13, 28 to 32, 133 and 160.
\<close>

definition isspace :: "char \<Rightarrow> bool" where
  "isspace c =
     (let n = (of_char c :: nat)
      in (9 \<le> n \<and> n \<le> 13) \<or> (28 \<le> n \<and> n \<le> 32) \<or> n = 133 \<or> n = 160)"

definition strip :: "string \<Rightarrow> string" where
  "strip s = rev (dropWhile isspace (rev (dropWhile isspace s)))"

text \<open>
  \<^verbatim>\<open>str.lower\<close>: the letters A to Z and the upper-case letters of the range 192 to 222
  (215 is the multiplication sign) move up by 32.
\<close>

definition lower_char :: "char \<Rightarrow> char" where
  "lower_char c =
     (let n = (of_char c :: nat)
      in if (65 \<le> n \<and> n \<le> 90) \<or> (192 \<le> n \<and> n \<le> 222 \<and> n \<noteq> 215)
         then char_of (n + 32) else c)"

definition lower :: "string \<Rightarrow> string" where
  "lower s = map lower_char s"

text \<open>
  \<^verbatim>\<open>str.upper\<close>: the letters a to z and the lower-case letters of the range 224 to 254
  (247 is the division sign) move down by 32, and the sharp s (223) becomes two letters S.
  The upper-case forms of 181 and 255 lie beyond code point 255; the model leaves these two
  characters in place, which no comparison with an ASCII key can tell apart.
\<close>

definition upper_char :: "char \<Rightarrow> string" where
  "upper_char c =
     (let n = (of_char c :: nat)
      in if (97 \<le> n \<and> n \<le> 122) \<or> (224 \<le> n \<and> n \<le> 254 \<and> n \<noteq> 247)
         then [char_of (n - 32)]
         else if n = 223 then ''SS'' else [c])"

definition upper :: "string \<Rightarrow> string" where
  "upper s = concat (map upper_char s)"

section \<open>Findings (\<^verbatim>\<open>core/findings.py\<close>)\<close>

datatype FindingType = SECURITY | BUG | QUALITY | PERFORMANCE | ACCESSIBILITY

datatype Severity = CRITICAL | HIGH | MEDIUM | LOW | INFO

text \<open>The members of each enum in definition order, and their \<^verbatim>\<open>.value\<close>.\<close>

definition FindingType_members :: "FindingType list" where
  "FindingType_members = [SECURITY, BUG, QUALITY, PERFORMANCE, ACCESSIBILITY]"

definition Severity_members :: "Severity list" where
  "Severity_members = [CRITICAL, HIGH, MEDIUM, LOW, INFO]"

fun FindingType_value :: "FindingType \<Rightarrow> string" where
  "FindingType_value SECURITY = ''security''"
| "FindingType_value BUG = ''bug''"
| "FindingType_value QUALITY = ''quality''"
| "FindingType_value PERFORMANCE = ''performance''"
| "FindingType_value ACCESSIBILITY = ''accessibility''"

fun Severity_value :: "Severity \<Rightarrow> string" where
  "Severity_value CRITICAL = ''critical''"
| "Severity_value HIGH = ''high''"
| "Severity_value MEDIUM = ''medium''"
| "Severity_value LOW = ''low''"
| "Severity_value INFO = ''info''"

text \<open>
  The dataclasses check no field type, so every field that \<^verbatim>\<open>_parse_finding\<close> fills from the
  reply holds whatever value the reply had there; \<^const>\<open>JNull\<close> is \<^verbatim>\<open>None\<close>.
\<close>

record Location =
  file_path :: string
  line :: json
  column :: json
  end_line :: json
  end_column :: json

record Finding =
  type :: FindingType
  severity :: Severity
  message :: json
  location :: Location
  remediation :: json
  confidence :: json
  code_snippet :: json
  rule_id :: json
  metadata :: json

text \<open>The default of the field \<^verbatim>\<open>confidence\<close> of the dataclass, the float 1.0.\<close>

definition Finding_confidence_default :: json where
  "Finding_confidence_default = JFloat 0x3FF0000000000000"

record AnalysisResult =
  findings :: "Finding list"
  files_analyzed :: int
  total_lines :: int
  analysis_time_seconds :: "64 word"
  timestamp :: string
  result_metadata :: "(string \<times> json) list"

text \<open>
  The field \<open>timestamp\<close> holds the capture time as the text that \<^verbatim>\<open>isoformat()\<close> gives for
  it, and \<open>result_metadata\<close> is the field \<^verbatim>\<open>metadata\<close> of the result.
\<close>

definition get_findings_by_severity :: "AnalysisResult \<Rightarrow> Severity \<Rightarrow> Finding list" where
  "get_findings_by_severity r sev = filter (\<lambda>f. severity f = sev) (findings r)"

definition get_findings_by_type :: "AnalysisResult \<Rightarrow> FindingType \<Rightarrow> Finding list" where
  "get_findings_by_type r finding_type = filter (\<lambda>f. type f = finding_type) (findings r)"

text \<open>
  \<^verbatim>\<open>get_summary\<close> returns a dict, which is a \<^const>\<open>JObject\<close>. Each of the two loops stores
  one count per enum member, in the order of the members; \<^verbatim>\<open>d[k] = v\<close> is
  \<^const>\<open>AList.update\<close>.
\<close>

definition get_summary :: "AnalysisResult \<Rightarrow> json" where
  "get_summary r =
     (let findings_by_severity =
            fold (\<lambda>sev d.
                    AList.update (Severity_value sev)
                      (JInt (int (length (get_findings_by_severity r sev)))) d)
              Severity_members [];
          findings_by_type =
            fold (\<lambda>finding_type d.
                    AList.update (FindingType_value finding_type)
                      (JInt (int (length (get_findings_by_type r finding_type)))) d)
              FindingType_members []
      in JObject
           [(''total_findings'', JInt (int (length (findings r)))),
            (''findings_by_severity'', JObject findings_by_severity),
            (''findings_by_type'', JObject findings_by_type),
            (''files_analyzed'', JInt (files_analyzed r)),
            (''total_lines'', JInt (total_lines r)),
            (''analysis_time_seconds'', JFloat (analysis_time_seconds r)),
            (''timestamp'', JString (timestamp r))])"

text \<open>Reading a summary: an entry of the dict, and the sum of the counts of a breakdown.\<close>

definition entry :: "json \<Rightarrow> string \<Rightarrow> json" where
  "entry v k = (case v of JObject d \<Rightarrow> dict_get d k JNull | _ \<Rightarrow> JNull)"

definition count_of :: "json \<Rightarrow> int" where
  "count_of v = (case v of JInt n \<Rightarrow> n | _ \<Rightarrow> 0)"

definition sum_counts :: "json \<Rightarrow> int" where
  "sum_counts v = (case v of JObject d \<Rightarrow> sum_list (map (\<lambda>(k, x). count_of x) d) | _ \<Rightarrow> 0)"

section \<open>Prompts (\<^verbatim>\<open>core/prompts.py\<close>)\<close>

text \<open>
  The lines that open the description of the reply in all four templates.
\<close>

definition response_format :: string where
  \<open>response_format =
     ''Format your response as JSON with this structure:\<newline>'' @
     ''{\<newline>'' @
     ''  "findings": [\<newline>''\<close>

text \<open>
  The template of \<^verbatim>\<open>get_security_prompt\<close>: the text between the code fence and
  the description of the reply, and the text after the line that opens the array.
\<close>

definition security_checks :: string where
  \<open>security_checks =
     ''\<newline>'' @
     ''Please identify:\<newline>'' @
     ''1. SQL injection vulnerabilities\<newline>'' @
     ''2. Cross-site scripting (XSS) vulnerabilities\<newline>'' @
     ''3. Authentication and authorization issues\<newline>'' @
     ''4. Insecure data storage or transmission\<newline>'' @
     ''5. Hardcoded secrets, API keys, or credentials\<newline>'' @
     ''6. Insecure deserialization\<newline>'' @
     ''7. Server-side request forgery (SSRF)\<newline>'' @
     ''8. Path traversal vulnerabilities\<newline>'' @
     ''9. Command injection\<newline>'' @
     ''10. Insecure random number generation\<newline>'' @
     ''\<newline>'' @
     ''For each vulnerability found, provide:\<newline>'' @
     ''- Type: The vulnerability type (e.g., SQL_INJECTION, XSS)\<newline>'' @
     ''- Severity: critical, high, medium, or low\<newline>'' @
     ''- Location: Line number(s) where the issue occurs\<newline>'' @
     ''- Message: Clear description of the vulnerability\<newline>'' @
     ''- Remediation: How to fix the issue\<newline>'' @
     ''- Confidence: Your confidence level (0.0 to 1.0)\<newline>'' @
     ''\<newline>''\<close>

definition security_example :: string where
  \<open>security_example =
     ''    {\<newline>'' @
     ''      "type": "SECURITY",\<newline>'' @
     ''      "severity": "critical",\<newline>'' @
     ''      "line": 42,\<newline>'' @
     ''      "message": "SQL injection vulnerability: user input directly concatenated into SQL query",\<newline>'' @
     ''      "remediation": "Use parameterized queries or prepared statements",\<newline>'' @
     ''      "confidence": 0.95,\<newline>'' @
     ''      "code_snippet": "query = f'SELECT * FROM users WHERE id = {user_input}'"  # Example: SQL injection pattern (for demonstration)\<newline>'' @
     ''    }\<newline>'' @
     ''  ]\<newline>'' @
     ''}\<newline>'' @
     ''\<newline>'' @
     ''If no vulnerabilities are found, return: {"findings": []}\<newline>''\<close>

definition get_security_prompt :: "string \<Rightarrow> string \<Rightarrow> string \<Rightarrow> string" where
  \<open>get_security_prompt file_name code language =
     ''Analyze the following '' @ language @ '' code for security vulnerabilities.\<newline>'' @
     ''\<newline>'' @
     ''File: '' @ file_name @ ''\<newline>'' @
     ''\<newline>'' @
     ''Code:\<newline>'' @
     ''```'' @ language @ ''\<newline>'' @
     code @ ''\<newline>'' @
     ''```\<newline>'' @
     security_checks @ response_format @ security_example\<close>

text \<open>
  The template of \<^verbatim>\<open>get_bug_detection_prompt\<close>: the text between the code fence and
  the description of the reply, and the text after the line that opens the array.
\<close>

definition bug_detection_checks :: string where
  \<open>bug_detection_checks =
     ''\<newline>'' @
     ''Please identify:\<newline>'' @
     ''1. Null pointer/null reference exceptions\<newline>'' @
     ''2. Array/string index out of bounds\<newline>'' @
     ''3. Division by zero\<newline>'' @
     ''4. Infinite loops or recursion\<newline>'' @
     ''5. Resource leaks (unclosed files, connections)\<newline>'' @
     ''6. Race conditions\<newline>'' @
     ''7. Off-by-one errors\<newline>'' @
     ''8. Type mismatches\<newline>'' @
     ''9. Uninitialized variables\<newline>'' @
     ''10. Logic errors\<newline>'' @
     ''\<newline>'' @
     ''For each bug found, provide:\<newline>'' @
     ''- Type: The bug type (e.g., NULL_POINTER, RESOURCE_LEAK)\<newline>'' @
     ''- Severity: critical, high, medium, or low\<newline>'' @
     ''- Location: Line number(s) where the bug occurs\<newline>'' @
     ''- Message: Clear description of the bug\<newline>'' @
     ''- Remediation: How to fix the bug\<newline>'' @
     ''- Confidence: Your confidence level (0.0 to 1.0)\<newline>'' @
     ''\<newline>''\<close>

definition bug_detection_example :: string where
  \<open>bug_detection_example =
     ''    {\<newline>'' @
     ''      "type": "BUG",\<newline>'' @
     ''      "severity": "high",\<newline>'' @
     ''      "line": 15,\<newline>'' @
     ''      "message": "Potential null pointer: variable 'user' may be None before access",\<newline>'' @
     ''      "remediation": "Add null check before accessing user properties",\<newline>'' @
     ''      "confidence": 0.85,\<newline>'' @
     ''      "code_snippet": "name = user.name"\<newline>'' @
     ''    }\<newline>'' @
     ''  ]\<newline>'' @
     ''}\<newline>'' @
     ''\<newline>'' @
     ''If no bugs are found, return: {"findings": []}\<newline>''\<close>

definition get_bug_detection_prompt :: "string \<Rightarrow> string \<Rightarrow> string \<Rightarrow> string" where
  \<open>get_bug_detection_prompt file_name code language =
     ''Analyze the following '' @ language @ '' code for bugs and logic errors.\<newline>'' @
     ''\<newline>'' @
     ''File: '' @ file_name @ ''\<newline>'' @
     ''\<newline>'' @
     ''Code:\<newline>'' @
     ''```'' @ language @ ''\<newline>'' @
     code @ ''\<newline>'' @
     ''```\<newline>'' @
     bug_detection_checks @ response_format @ bug_detection_example\<close>

text \<open>
  The template of \<^verbatim>\<open>get_quality_prompt\<close>: the text between the code fence and
  the description of the reply, and the text after the line that opens the array.
\<close>

definition quality_checks :: string where
  \<open>quality_checks =
     ''\<newline>'' @
     ''Please identify:\<newline>'' @
     ''1. Code smells (long methods, large classes)\<newline>'' @
     ''2. Anti-patterns\<newline>'' @
     ''3. Best practice violations\<newline>'' @
     ''4. Duplicate code\<newline>'' @
     ''5. Poor naming conventions\<newline>'' @
     ''6. Missing error handling\<newline>'' @
     ''7. Inefficient algorithms\<newline>'' @
     ''8. Missing documentation\<newline>'' @
     ''9. Complex conditional logic\<newline>'' @
     ''10. Tight coupling\<newline>'' @
     ''\<newline>'' @
     ''For each issue found, provide:\<newline>'' @
     ''- Type: The issue type (e.g., CODE_SMELL, ANTI_PATTERN)\<newline>'' @
     ''- Severity: critical, high, medium, low, or info\<newline>'' @
     ''- Location: Line number(s) where the issue occurs\<newline>'' @
     ''- Message: Clear description of the issue\<newline>'' @
     ''- Remediation: How to improve the code\<newline>'' @
     ''- Confidence: Your confidence level (0.0 to 1.0)\<newline>'' @
     ''\<newline>''\<close>

definition quality_example :: string where
  \<open>quality_example =
     ''    {\<newline>'' @
     ''      "type": "QUALITY",\<newline>'' @
     ''      "severity": "medium",\<newline>'' @
     ''      "line": 50,\<newline>'' @
     ''      "message": "Method is too long (150 lines), consider breaking into smaller functions",\<newline>'' @
     ''      "remediation": "Extract logical sections into separate methods",\<newline>'' @
     ''      "confidence": 0.90,\<newline>'' @
     ''      "code_snippet": "def process_data(): ..."\<newline>'' @
     ''    }\<newline>'' @
     ''  ]\<newline>'' @
     ''}\<newline>'' @
     ''\<newline>'' @
     ''If no issues are found, return: {"findings": []}\<newline>''\<close>

definition get_quality_prompt :: "string \<Rightarrow> string \<Rightarrow> string \<Rightarrow> string" where
  \<open>get_quality_prompt file_name code language =
     ''Analyze the following '' @ language @ '' code for code quality issues.\<newline>'' @
     ''\<newline>'' @
     ''File: '' @ file_name @ ''\<newline>'' @
     ''\<newline>'' @
     ''Code:\<newline>'' @
     ''```'' @ language @ ''\<newline>'' @
     code @ ''\<newline>'' @
     ''```\<newline>'' @
     quality_checks @ response_format @ quality_example\<close>

text \<open>
  The template of \<^verbatim>\<open>get_comprehensive_prompt\<close>: the text between the code fence and
  the description of the reply, and the text after the line that opens the array.
\<close>

definition comprehensive_checks :: string where
  \<open>comprehensive_checks =
     ''\<newline>'' @
     ''Analyze for:\<newline>'' @
     ''1. Security vulnerabilities (SQL injection, XSS, authentication issues, etc.)\<newline>'' @
     ''2. Bugs and logic errors (null pointers, resource leaks, race conditions, etc.)\<newline>'' @
     ''3. Code quality issues (code smells, anti-patterns, best practices, etc.)\<newline>'' @
     ''\<newline>'' @
     ''For each finding, provide:\<newline>'' @
     ''- Type: SECURITY, BUG, or QUALITY\<newline>'' @
     ''- Severity: critical, high, medium, low, or info\<newline>'' @
     ''- Location: Line number(s) where the issue occurs\<newline>'' @
     ''- Message: Clear description of the issue\<newline>'' @
     ''- Remediation: How to fix or improve\<newline>'' @
     ''- Confidence: Your confidence level (0.0 to 1.0)\<newline>'' @
     ''\<newline>''\<close>

definition comprehensive_example :: string where
  \<open>comprehensive_example =
     ''    {\<newline>'' @
     ''      "type": "SECURITY",\<newline>'' @
     ''      "severity": "critical",\<newline>'' @
     ''      "line": 42,\<newline>'' @
     ''      "message": "SQL injection vulnerability",\<newline>'' @
     ''      "remediation": "Use parameterized queries",\<newline>'' @
     ''      "confidence": 0.95,\<newline>'' @
     ''      "code_snippet": "query = f'SELECT * FROM users WHERE id = {user_input}'"  # Example: SQL injection pattern (for demonstration)\<newline>'' @
     ''    },\<newline>'' @
     ''    {\<newline>'' @
     ''      "type": "BUG",\<newline>'' @
     ''      "severity": "high",\<newline>'' @
     ''      "line": 15,\<newline>'' @
     ''      "message": "Potential null pointer",\<newline>'' @
     ''      "remediation": "Add null check",\<newline>'' @
     ''      "confidence": 0.85,\<newline>'' @
     ''      "code_snippet": "name = user.name"\<newline>'' @
     ''    }\<newline>'' @
     ''  ]\<newline>'' @
     ''}\<newline>'' @
     ''\<newline>'' @
     ''If no findings are found, return: {"findings": []}\<newline>''\<close>

definition get_comprehensive_prompt :: "string \<Rightarrow> string \<Rightarrow> string \<Rightarrow> string" where
  \<open>get_comprehensive_prompt file_name code language =
     ''Perform a comprehensive analysis of the following '' @ language @ '' code.\<newline>'' @
     ''\<newline>'' @
     ''File: '' @ file_name @ ''\<newline>'' @
     ''\<newline>'' @
     ''Code:\<newline>'' @
     ''```'' @ language @ ''\<newline>'' @
     code @ ''\<newline>'' @
     ''```\<newline>'' @
     comprehensive_checks @ response_format @ comprehensive_example\<close>

text \<open>\<^verbatim>\<open>get_prompt\<close>: the dict of the four templates, looked up with the lower-cased type.\<close>

definition prompts :: "(string \<times> (string \<Rightarrow> string \<Rightarrow> string \<Rightarrow> string)) list" where
  "prompts =
     [(''security'', get_security_prompt),
      (''bugs'', get_bug_detection_prompt),
      (''quality'', get_quality_prompt),
      (''comprehensive'', get_comprehensive_prompt)]"

definition get_prompt :: "string \<Rightarrow> string \<Rightarrow> string \<Rightarrow> string \<Rightarrow> string" where
  "get_prompt analysis_type file_name code language =
     (let prompt_func =
            (case map_of prompts (lower analysis_type) of
               None \<Rightarrow> get_comprehensive_prompt
             | Some f \<Rightarrow> f)
      in prompt_func file_name code language)"

section \<open>The analyzer (\<^verbatim>\<open>core/analyzer.py\<close>)\<close>

subsection \<open>One finding item\<close>

text \<open>\<^verbatim>\<open>v.lower()\<close> and \<^verbatim>\<open>v.upper()\<close>: only a \<^verbatim>\<open>str\<close> has the method.\<close>

definition value_lower :: "json \<Rightarrow> py_error + string" where
  "value_lower v = (case v of JString s \<Rightarrow> Inr (lower s) | _ \<Rightarrow> Inl AttributeError)"

definition value_upper :: "json \<Rightarrow> py_error + string" where
  "value_upper v = (case v of JString s \<Rightarrow> Inr (upper s) | _ \<Rightarrow> Inl AttributeError)"

definition severity_map :: "(string \<times> Severity) list" where
  "severity_map =
     [(''critical'', CRITICAL), (''high'', HIGH), (''medium'', MEDIUM), (''low'', LOW),
      (''info'', INFO)]"

definition type_map :: "(string \<times> FindingType) list" where
  "type_map =
     [(''SECURITY'', SECURITY), (''BUG'', BUG), (''QUALITY'', QUALITY),
      (''PERFORMANCE'', PERFORMANCE), (''ACCESSIBILITY'', ACCESSIBILITY)]"

text \<open>The float literal 0.8 of the source.\<close>

definition float_0_8 :: json where
  "float_0_8 = JFloat 0x3FE999999999999A"

text \<open>
  \<^verbatim>\<open>_parse_finding\<close>. The first \<^verbatim>\<open>finding_data.get\<close> raises on anything but a dict, and
  \<^verbatim>\<open>.lower()\<close>, \<^verbatim>\<open>.upper()\<close> raise on anything but a string; nothing after them can raise.
\<close>

definition parse_finding :: "json \<Rightarrow> string \<Rightarrow> py_error + Finding" where
  "parse_finding finding_data path =
     (case finding_data of
        JObject d \<Rightarrow>
          (case value_lower (dict_get d ''severity'' (JString ''medium'')) of
             Inl e \<Rightarrow> Inl e
           | Inr severity_str \<Rightarrow>
               (case value_upper (dict_get d ''type'' (JString ''QUALITY'')) of
                  Inl e \<Rightarrow> Inl e
                | Inr type_str \<Rightarrow>
                    Inr \<lparr> type = (case map_of type_map type_str of
                                    None \<Rightarrow> QUALITY | Some t \<Rightarrow> t),
                          severity = (case map_of severity_map severity_str of
                                        None \<Rightarrow> MEDIUM | Some s \<Rightarrow> s),
                          message = dict_get d ''message'' (JString ''Unknown issue''),
                          location =
                            \<lparr> file_path = path,
                              line = dict_get d ''line'' JNull,
                              column = dict_get d ''column'' JNull,
                              end_line = dict_get d ''end_line'' JNull,
                              end_column = dict_get d ''end_column'' JNull \<rparr>,
                          remediation = dict_get d ''remediation'' JNull,
                          confidence = dict_get d ''confidence'' float_0_8,
                          code_snippet = dict_get d ''code_snippet'' JNull,
                          rule_id = dict_get d ''rule_id'' JNull,
                          metadata = dict_get d ''metadata'' (JObject []) \<rparr>))
      | _ \<Rightarrow> Inl AttributeError)"

subsection \<open>Regular expressions\<close>

text \<open>
  The two patterns of \<^verbatim>\<open>_parse_api_response\<close> use literals, an optional group, greedy and
  lazy stars over a character class, one capturing group and concatenation. \<^verbatim>\<open>re.DOTALL\<close>
  makes the dot match every character.
\<close>

datatype cclass = Space | AnyChar

fun in_class :: "cclass \<Rightarrow> char \<Rightarrow> bool" where
  "in_class Space c = isspace c"
| "in_class AnyChar c = True"

datatype rx = Lit string | Opt rx | Star cclass | LazyStar cclass | Grp rx | Cat rx rx

text \<open>
  \<open>rmatch r s\<close> lists every way in which \<open>r\<close> matches a prefix of \<open>s\<close>, in the order in which
  the backtracking matcher tries them: the text captured by the group (if the group took
  part) and the rest of \<open>s\<close>. A greedy star tries the longest run first, a lazy star the
  shortest; an optional part is tried present first.
\<close>

fun rmatch :: "rx \<Rightarrow> string \<Rightarrow> (string option \<times> string) list" where
  "rmatch (Lit l) s = (if take (length l) s = l then [(None, drop (length l) s)] else [])"
| "rmatch (Opt r) s = rmatch r s @ [(None, s)]"
| "rmatch (Star cc) s =
     map (\<lambda>k. (None, drop k s)) (rev [0..<Suc (length (takeWhile (in_class cc) s))])"
| "rmatch (LazyStar cc) s =
     map (\<lambda>k. (None, drop k s)) [0..<Suc (length (takeWhile (in_class cc) s))]"
| "rmatch (Grp r) s =
     map (\<lambda>(c, rest). (Some (take (length s - length rest) s), rest)) (rmatch r s)"
| "rmatch (Cat a b) s =
     concat (map (\<lambda>(c1, r1).
                    map (\<lambda>(c2, r2). (case c2 of None \<Rightarrow> c1 | Some g \<Rightarrow> Some g, r2))
                      (rmatch b r1))
               (rmatch a s))"

text \<open>
  \<^verbatim>\<open>re.search\<close>: the first way to match at the leftmost position that has one. The result
  is \<^verbatim>\<open>group(0)\<close> and \<^verbatim>\<open>group(1)\<close> of the match object; \<open>None\<close> is no match.
\<close>

fun search :: "rx \<Rightarrow> string \<Rightarrow> (string \<times> string option) option" where
  "search r [] =
     (case rmatch r [] of
        [] \<Rightarrow> None
      | (c, rest) # _ \<Rightarrow> Some ([], c))"
| "search r (x # xs) =
     (case rmatch r (x # xs) of
        [] \<Rightarrow> search r xs
      | (c, rest) # _ \<Rightarrow> Some (take (length (x # xs) - length rest) (x # xs), c))"

text \<open>The pattern \<^verbatim>\<open>```(?:json)?\s*(\{.*?\})\s*```\<close>.\<close>

definition fenced_pattern :: rx where
  "fenced_pattern =
     Cat (Lit ''```'')
       (Cat (Opt (Lit ''json''))
          (Cat (Star Space)
             (Cat (Grp (Cat (Lit ''{'') (Cat (LazyStar AnyChar) (Lit ''}''))))
                (Cat (Star Space) (Lit ''```'')))))"

text \<open>The pattern \<^verbatim>\<open>\{.*\}\<close>.\<close>

definition object_pattern :: rx where
  "object_pattern = Cat (Lit ''{'') (Cat (Star AnyChar) (Lit ''}''))"

subsection \<open>The reply\<close>

text \<open>
  The first part of \<^verbatim>\<open>_parse_api_response\<close>: the text that is handed to \<^verbatim>\<open>json.loads\<close>.
  \<open>None\<close> stands for \<^verbatim>\<open>group(1)\<close> of a match in which the group took no part.
\<close>

definition extract_json :: "string \<Rightarrow> string option" where
  "extract_json response =
     (case search fenced_pattern response of
        Some (whole, g) \<Rightarrow> g
      | None \<Rightarrow>
          (case search object_pattern response of
             Some (whole, g) \<Rightarrow> Some whole
           | None \<Rightarrow> Some response))"

text \<open>
  For the statements about the extraction: a text holds a fence when three backticks in a
  row stand somewhere in it.
\<close>

fun has_fence :: "string \<Rightarrow> bool" where
  "has_fence [] = False"
| "has_fence (c # s) = (take 3 (c # s) = ''```'' \<or> has_fence s)"

text \<open>
  \<^verbatim>\<open>for finding_data in findings_data\<close>: a list gives its items, a string its characters,
  a dict its keys; the other values are not iterable.
\<close>

definition py_iter :: "json \<Rightarrow> py_error + json list" where
  "py_iter v =
     (case v of
        JArray xs \<Rightarrow> Inr xs
      | JString s \<Rightarrow> Inr (map (\<lambda>c. JString [c]) s)
      | JObject d \<Rightarrow> Inr (map (\<lambda>(k, x). JString k) d)
      | _ \<Rightarrow> Inl TypeError)"

text \<open>
  The loop over the items: a finding is appended, and an item on which \<^verbatim>\<open>_parse_finding\<close>
  raises is logged and left out.
\<close>

fun parse_items :: "json list \<Rightarrow> string \<Rightarrow> Finding list \<Rightarrow> Finding list" where
  "parse_items [] path found = found"
| "parse_items (finding_data # rest) path found =
     (case parse_finding finding_data path of
        Inr finding \<Rightarrow> parse_items rest path (found @ [finding])
      | Inl e \<Rightarrow> parse_items rest path found)"

text \<open>
  \<^verbatim>\<open>_parse_api_response\<close>. \<^verbatim>\<open>json.loads\<close> is the library's decoder and a parameter of the
  model: it returns the decoded value or raises. Only \<^verbatim>\<open>json.JSONDecodeError\<close> is caught;
  \<open>Inl\<close> is an exception that leaves the function.
\<close>

definition parse_api_response ::
  "(string \<Rightarrow> py_error + json) \<Rightarrow> string \<Rightarrow> string \<Rightarrow> py_error + Finding list" where
  "parse_api_response loads response path =
     (case extract_json response of
        None \<Rightarrow> Inl TypeError
      | Some text \<Rightarrow>
          (case loads text of
             Inl e \<Rightarrow> (if e = JSONDecodeError then Inr [] else Inl e)
           | Inr data \<Rightarrow>
               (case (case data of
                        JObject d \<Rightarrow> Some (dict_get d ''findings'' (JArray []))
                      | JArray xs \<Rightarrow> Some data
                      | _ \<Rightarrow> None) of
                  None \<Rightarrow> Inr []
                | Some findings_data \<Rightarrow>
                    (case py_iter findings_data of
                       Inl e \<Rightarrow> Inl e
                     | Inr items \<Rightarrow> Inr (parse_items items path [])))))"

subsection \<open>The call with retries\<close>

text \<open>
  The analyzer's fields. The client is not part of the repository: \<open>create\<close> is what
  \<^verbatim>\<open>client.messages.create\<close> does on the call with the given number (counted from 0) and
  prompt, followed by the reading of \<^verbatim>\<open>response.content[0].text\<close>: an exception, a
  response without content, or a response with its text.
\<close>

record CodeAnalyzer =
  api_key :: string
  model :: string
  timeout :: int
  max_retries :: int

datatype create_result = Raises | Response "string option"

text \<open>What the function does to the outside: the prompts sent and the delays slept.\<close>

record world =
  calls :: "string list"
  sleeps :: "int list"

text \<open>
  The loop \<^verbatim>\<open>for attempt in range(self.max_retries)\<close> of \<^verbatim>\<open>analyze_code\<close> over the attempts
  that are left. The \<^verbatim>\<open>try\<close> block holds the call and the parsing of the reply, so an
  exception of either one is handled by \<^verbatim>\<open>except Exception\<close>.
\<close>

fun attempts ::
  "CodeAnalyzer \<Rightarrow> (nat \<Rightarrow> string \<Rightarrow> create_result) \<Rightarrow> (string \<Rightarrow> py_error + json) \<Rightarrow>
   string \<Rightarrow> string \<Rightarrow> nat list \<Rightarrow> world \<Rightarrow> Finding list \<times> world" where
  "attempts self create loads prompt file_name [] w = ([], w)"
| "attempts self create loads prompt file_name (attempt # rest) w =
     (let w1 = w\<lparr>calls := calls w @ [prompt]\<rparr>;
          failed =
            (if int attempt < max_retries self - 1
             then attempts self create loads prompt file_name rest
                    (w1\<lparr>sleeps := sleeps w1 @ [2 ^ attempt]\<rparr>)
             else ([], w1))
      in case create (length (calls w)) prompt of
           Raises \<Rightarrow> failed
         | Response None \<Rightarrow> ([], w1)
         | Response (Some response_text) \<Rightarrow>
             (case parse_api_response loads response_text file_name of
                Inl e \<Rightarrow> failed
              | Inr found \<Rightarrow> (found, w1)))"

definition analyze_code ::
  "CodeAnalyzer \<Rightarrow> (nat \<Rightarrow> string \<Rightarrow> create_result) \<Rightarrow> (string \<Rightarrow> py_error + json) \<Rightarrow>
   string \<Rightarrow> string \<Rightarrow> string \<Rightarrow> string \<Rightarrow> world \<Rightarrow> Finding list \<times> world" where
  "analyze_code self create loads code language file_name analysis_type w =
     (if code = [] \<or> strip code = [] then ([], w)
      else attempts self create loads (get_prompt analysis_type file_name code language)
             file_name [0..<nat (max_retries self)] w)"

subsection \<open>Decoders for concrete replies\<close>

text \<open>
  The theorems hold for every decoder. Where a reply is evaluated, the decoder is given by
  the table of the texts it accepts and the values it returns for them; it rejects any
  other text.
\<close>

definition decoder_of :: "(string \<times> json) list \<Rightarrow> string \<Rightarrow> py_error + json" where
  "decoder_of table text =
     (case map_of table text of None \<Rightarrow> Inl JSONDecodeError | Some v \<Rightarrow> Inr v)"

section \<open>Properties of one finding item\<close>

lemma map_of_severity_map:
  "map_of severity_map s =
     (if s = ''critical'' then Some CRITICAL else if s = ''high'' then Some HIGH
      else if s = ''medium'' then Some MEDIUM else if s = ''low'' then Some LOW
      else if s = ''info'' then Some INFO else None)"
  unfolding severity_map_def by simp

lemma map_of_type_map:
  "map_of type_map s =
     (if s = ''SECURITY'' then Some SECURITY else if s = ''BUG'' then Some BUG
      else if s = ''QUALITY'' then Some QUALITY
      else if s = ''PERFORMANCE'' then Some PERFORMANCE
      else if s = ''ACCESSIBILITY'' then Some ACCESSIBILITY else None)"
  unfolding type_map_def by simp

lemma lower_medium: "lower ''medium'' = ''medium''"
  by (simp add: lower_def lower_char_def)

lemma upper_QUALITY: "upper ''QUALITY'' = ''QUALITY''"
  by (simp add: upper_def upper_char_def)

lemma parse_finding_object:
  "parse_finding item path = Inr f \<Longrightarrow> \<exists>d. item = JObject d"
  by (cases item) (simp_all add: parse_finding_def)

lemma value_lower_not_string: "(\<forall>s. v \<noteq> JString s) \<Longrightarrow> value_lower v = Inl AttributeError"
  by (cases v) (simp_all add: value_lower_def)

lemma value_upper_not_string: "(\<forall>s. v \<noteq> JString s) \<Longrightarrow> value_upper v = Inl AttributeError"
  by (cases v) (simp_all add: value_upper_def)

lemma parse_finding_severity_not_string:
  assumes "map_of d ''severity'' = Some v" and "\<forall>s. v \<noteq> JString s"
  shows "parse_finding (JObject d) path = Inl AttributeError"
  using assms by (simp add: parse_finding_def dict_get_def value_lower_not_string)

lemma parse_finding_type_not_string:
  assumes "map_of d ''type'' = Some v" and "\<forall>s. v \<noteq> JString s"
  shows "parse_finding (JObject d) path = Inl AttributeError"
proof (cases "value_lower (dict_get d ''severity'' (JString ''medium''))")
  case (Inl e)
  then have "e = AttributeError"
    by (auto simp: value_lower_def split: json.splits)
  with Inl show ?thesis by (simp add: parse_finding_def)
next
  case (Inr s)
  with assms show ?thesis
    by (simp add: parse_finding_def dict_get_def value_upper_not_string)
qed

text \<open>
  Claim C4, as the code has it. An item whose \<^verbatim>\<open>severity\<close> and \<^verbatim>\<open>type\<close> are each absent or
  a string gives a finding and no error. The severity is the member whose value is the
  lower-cased string, and \<^verbatim>\<open>medium\<close> when the field is absent or the lower-cased string is
  none of the five values; the type is the member whose name is the upper-cased string, and
  \<^verbatim>\<open>quality\<close> when the field is absent or the upper-cased string is none of the five names.
  An item whose severity is present and not a string, or whose type is present and not a
  string, gives no finding: \<^verbatim>\<open>_parse_finding\<close> raises \<^verbatim>\<open>AttributeError\<close>.
\<close>

theorem parse_finding_defaults:
  "((map_of d ''severity'' = None \<or> (\<exists>s. map_of d ''severity'' = Some (JString s)))
    \<and> (map_of d ''type'' = None \<or> (\<exists>s. map_of d ''type'' = Some (JString s)))
    \<longrightarrow> (\<exists>f. parse_finding (JObject d) path = Inr f
    \<and> (map_of d ''severity'' = None \<longrightarrow> severity f = MEDIUM)
    \<and> (\<forall>s. map_of d ''severity'' = Some (JString s) \<longrightarrow>
          (lower s = ''critical'' \<longrightarrow> severity f = CRITICAL)
        \<and> (lower s = ''high'' \<longrightarrow> severity f = HIGH)
        \<and> (lower s = ''medium'' \<longrightarrow> severity f = MEDIUM)
        \<and> (lower s = ''low'' \<longrightarrow> severity f = LOW)
        \<and> (lower s = ''info'' \<longrightarrow> severity f = INFO)
        \<and> (lower s \<notin> {''critical'', ''high'', ''medium'', ''low'', ''info''} \<longrightarrow>
             severity f = MEDIUM))
    \<and> (map_of d ''type'' = None \<longrightarrow> type f = QUALITY)
    \<and> (\<forall>s. map_of d ''type'' = Some (JString s) \<longrightarrow>
          (upper s = ''SECURITY'' \<longrightarrow> type f = SECURITY)
        \<and> (upper s = ''BUG'' \<longrightarrow> type f = BUG)
        \<and> (upper s = ''QUALITY'' \<longrightarrow> type f = QUALITY)
        \<and> (upper s = ''PERFORMANCE'' \<longrightarrow> type f = PERFORMANCE)
        \<and> (upper s = ''ACCESSIBILITY'' \<longrightarrow> type f = ACCESSIBILITY)
        \<and> (upper s \<notin> {''SECURITY'', ''BUG'', ''QUALITY'', ''PERFORMANCE'', ''ACCESSIBILITY''} \<longrightarrow>
             type f = QUALITY))))
   \<and> (\<forall>v. map_of d ''severity'' = Some v \<and> (\<forall>s. v \<noteq> JString s) \<longrightarrow>
         parse_finding (JObject d) path = Inl AttributeError)
   \<and> (\<forall>v. map_of d ''type'' = Some v \<and> (\<forall>s. v \<noteq> JString s) \<longrightarrow>
         parse_finding (JObject d) path = Inl AttributeError)"
proof (intro conjI impI allI)
  assume "(map_of d ''severity'' = None \<or> (\<exists>s. map_of d ''severity'' = Some (JString s)))
    \<and> (map_of d ''type'' = None \<or> (\<exists>s. map_of d ''type'' = Some (JString s)))"
  then show "\<exists>f. parse_finding (JObject d) path = Inr f
    \<and> (map_of d ''severity'' = None \<longrightarrow> severity f = MEDIUM)
    \<and> (\<forall>s. map_of d ''severity'' = Some (JString s) \<longrightarrow>
          (lower s = ''critical'' \<longrightarrow> severity f = CRITICAL)
        \<and> (lower s = ''high'' \<longrightarrow> severity f = HIGH)
        \<and> (lower s = ''medium'' \<longrightarrow> severity f = MEDIUM)
        \<and> (lower s = ''low'' \<longrightarrow> severity f = LOW)
        \<and> (lower s = ''info'' \<longrightarrow> severity f = INFO)
        \<and> (lower s \<notin> {''critical'', ''high'', ''medium'', ''low'', ''info''} \<longrightarrow>
             severity f = MEDIUM))
    \<and> (map_of d ''type'' = None \<longrightarrow> type f = QUALITY)
    \<and> (\<forall>s. map_of d ''type'' = Some (JString s) \<longrightarrow>
          (upper s = ''SECURITY'' \<longrightarrow> type f = SECURITY)
        \<and> (upper s = ''BUG'' \<longrightarrow> type f = BUG)
        \<and> (upper s = ''QUALITY'' \<longrightarrow> type f = QUALITY)
        \<and> (upper s = ''PERFORMANCE'' \<longrightarrow> type f = PERFORMANCE)
        \<and> (upper s = ''ACCESSIBILITY'' \<longrightarrow> type f = ACCESSIBILITY)
        \<and> (upper s \<notin> {''SECURITY'', ''BUG'', ''QUALITY'', ''PERFORMANCE'', ''ACCESSIBILITY''} \<longrightarrow>
             type f = QUALITY))"
    by (auto simp: parse_finding_def dict_get_def value_lower_def value_upper_def
        lower_medium upper_QUALITY map_of_severity_map map_of_type_map)
next
  fix v assume "map_of d ''severity'' = Some v \<and> (\<forall>s. v \<noteq> JString s)"
  then show "parse_finding (JObject d) path = Inl AttributeError"
    using parse_finding_severity_not_string by blast
next
  fix v assume "map_of d ''type'' = Some v \<and> (\<forall>s. v \<noteq> JString s)"
  then show "parse_finding (JObject d) path = Inl AttributeError"
    using parse_finding_type_not_string by blast
qed

text \<open>
  The theorem at four items: an unknown severity with no type, a severity and a type in
  mixed case, a severity that is a dict, and a type that is \<^verbatim>\<open>null\<close>.
\<close>

theorem parse_finding_defaults_witness:
  "(\<exists>f. parse_finding
         (JObject [(''severity'', JString ''urgent''), (''message'', JString ''m'')]) ''a.py''
         = Inr f \<and> severity f = MEDIUM \<and> type f = QUALITY)
   \<and> (\<exists>f. parse_finding
         (JObject [(''severity'', JString ''HiGh''), (''type'', JString ''Security'')]) ''a.py''
         = Inr f \<and> severity f = HIGH \<and> type f = SECURITY)
   \<and> parse_finding (JObject [(''severity'', JObject [])]) ''a.py'' = Inl AttributeError
   \<and> parse_finding (JObject [(''severity'', JString ''high''), (''type'', JNull)]) ''a.py''
       = Inl AttributeError"
  using parse_finding_defaults
    [of "[(''severity'', JString ''urgent''), (''message'', JString ''m'')]" "''a.py''"]
    parse_finding_defaults
    [of "[(''severity'', JString ''HiGh''), (''type'', JString ''Security'')]" "''a.py''"]
    parse_finding_defaults [of "[(''severity'', JObject [])]" "''a.py''"]
    parse_finding_defaults [of "[(''severity'', JString ''high''), (''type'', JNull)]" "''a.py''"]
  by (simp add: lower_def lower_char_def upper_def upper_char_def char_of_eq_iff)

text \<open>
  Claim C4 as stated fails on a severity that is not a string: \<^verbatim>\<open>.lower()\<close> raises, and the
  item gives no finding at all, whatever its type is.
\<close>

theorem parse_finding_not_string:
  "parse_finding (JObject [(''severity'', JInt 5), (''type'', JString ''BUG'')]) ''a.py''
     = Inl AttributeError"
  by (simp add: parse_finding_def dict_get_def value_lower_def)

text \<open>
  Claim C9, as the code has it. A finding comes from a dict; when the dict has no
  \<^verbatim>\<open>message\<close> the finding's message is the placeholder, and a message that is present is
  passed on as it is.
\<close>

theorem parse_finding_message:
  "parse_finding item path = Inr f \<Longrightarrow>
     \<exists>d. item = JObject d
       \<and> (map_of d ''message'' = None \<longrightarrow> message f = JString ''Unknown issue'')
       \<and> (\<forall>v. map_of d ''message'' = Some v \<longrightarrow> message f = v)"
  by (cases item)
     (auto simp: parse_finding_def dict_get_def split: sum.splits)

theorem parse_finding_message_witness:
  "parse_finding (JObject [(''severity'', JString ''low'')]) ''a.py'' =
     Inr \<lparr> type = QUALITY, severity = LOW, message = JString ''Unknown issue'',
           location = \<lparr> file_path = ''a.py'', line = JNull, column = JNull,
                        end_line = JNull, end_column = JNull \<rparr>,
           remediation = JNull, confidence = float_0_8, code_snippet = JNull,
           rule_id = JNull, metadata = JObject [] \<rparr>
   \<and> (\<exists>d. JObject [(''severity'', JString ''low'')] = JObject d
         \<and> map_of d ''message'' = None)"
  using parse_finding_message
    [of "JObject [(''severity'', JString ''low'')]" "''a.py''"]
  by (simp add: parse_finding_def dict_get_def value_lower_def value_upper_def
      lower_def upper_def lower_char_def upper_char_def map_of_type_map map_of_severity_map)

text \<open>
  Claim C9 as stated fails on an item whose message is the empty string: the finding is
  built and its message is empty.
\<close>

theorem parse_finding_empty_message:
  "parse_finding (JObject [(''message'', JString [])]) ''a.py'' =
     Inr \<lparr> type = QUALITY, severity = MEDIUM, message = JString [],
           location = \<lparr> file_path = ''a.py'', line = JNull, column = JNull,
                        end_line = JNull, end_column = JNull \<rparr>,
           remediation = JNull, confidence = float_0_8, code_snippet = JNull,
           rule_id = JNull, metadata = JObject [] \<rparr>"
  by (simp add: parse_finding_def dict_get_def value_lower_def value_upper_def
      lower_def upper_def lower_char_def upper_char_def map_of_type_map map_of_severity_map)

text \<open>
  Claim C10. A finding comes from a dict; when the dict has no \<^verbatim>\<open>confidence\<close> the finding's
  confidence is the float 0.8, which is not the 1.0 of the dataclass, and a confidence that
  is present is passed on as it is, whatever its value.
\<close>

theorem parse_finding_confidence:
  "parse_finding item path = Inr f \<Longrightarrow>
     \<exists>d. item = JObject d
       \<and> (map_of d ''confidence'' = None \<longrightarrow>
            confidence f = JFloat 0x3FE999999999999A
          \<and> confidence f \<noteq> Finding_confidence_default)
       \<and> (\<forall>v. map_of d ''confidence'' = Some v \<longrightarrow> confidence f = v)"
  by (cases item)
     (auto simp: parse_finding_def dict_get_def float_0_8_def Finding_confidence_default_def
           split: sum.splits)

text \<open>The theorem at an item without confidence and at an item with the confidence 7.\<close>

theorem parse_finding_confidence_witness:
  "(\<exists>f. parse_finding (JObject [(''message'', JString ''m'')]) ''a.py'' = Inr f
        \<and> confidence f = JFloat 0x3FE999999999999A)
   \<and> (\<exists>f. parse_finding (JObject [(''confidence'', JInt 7)]) ''a.py'' = Inr f
        \<and> confidence f = JInt 7)"
  using parse_finding_confidence [of "JObject [(''message'', JString ''m'')]" "''a.py''"]
    parse_finding_confidence [of "JObject [(''confidence'', JInt 7)]" "''a.py''"]
  by (simp add: parse_finding_def dict_get_def value_lower_def value_upper_def)

section \<open>Properties of the reply\<close>

subsection \<open>The text handed to the decoder is always there\<close>

lemma captures_Grp: "x \<in> set (rmatch (Grp r) s) \<Longrightarrow> fst x \<noteq> None"
  by auto

lemma captures_Cat_left:
  assumes "\<And>s x. x \<in> set (rmatch a s) \<Longrightarrow> fst x \<noteq> None"
  shows "x \<in> set (rmatch (Cat a b) s) \<Longrightarrow> fst x \<noteq> None"
  using assms by (fastforce split: option.splits)

lemma captures_Cat_right:
  assumes "\<And>s x. x \<in> set (rmatch b s) \<Longrightarrow> fst x \<noteq> None"
  shows "x \<in> set (rmatch (Cat a b) s) \<Longrightarrow> fst x \<noteq> None"
  using assms by (fastforce split: option.splits)

lemma captures_fenced_pattern: "x \<in> set (rmatch fenced_pattern s) \<Longrightarrow> fst x \<noteq> None"
  unfolding fenced_pattern_def
  by (erule captures_Cat_right [rotated], erule captures_Cat_right [rotated],
      erule captures_Cat_right [rotated], erule captures_Cat_left [rotated],
      erule captures_Grp)

lemma search_group:
  "search r s = Some (whole, g) \<Longrightarrow> \<exists>t rest. (g, rest) \<in> set (rmatch r t)"
proof (induction s)
  case Nil
  then have "(g, snd (hd (rmatch r []))) \<in> set (rmatch r [])"
    by (auto split: list.splits)
  then show ?case by blast
next
  case (Cons x xs)
  show ?case
  proof (cases "rmatch r (x # xs)")
    case Nil
    with Cons show ?thesis by simp
  next
    case (Cons m ms)
    with Cons.prems have "fst m = g" by (cases m) auto
    with Cons have "(g, snd m) \<in> set (rmatch r (x # xs))" by (cases m) auto
    then show ?thesis by blast
  qed
qed

lemma extract_json_total: "\<exists>text. extract_json response = Some text"
proof (cases "search fenced_pattern response")
  case None
  then show ?thesis by (simp add: extract_json_def split: option.splits)
next
  case (Some m)
  obtain whole g where m: "m = (whole, g)" by (cases m)
  from search_group [of fenced_pattern response whole g] Some m
  obtain t rest where "(g, rest) \<in> set (rmatch fenced_pattern t)" by auto
  from captures_fenced_pattern [OF this] have "g \<noteq> None" by simp
  with Some m show ?thesis by (auto simp: extract_json_def)
qed

subsection \<open>The loop over the items\<close>

lemma parse_items_results:
  "map Inr (parse_items items path found) =
     map Inr found @ filter (\<lambda>r. \<not> isl r) (map (\<lambda>x. parse_finding x path) items)"
proof (induction items arbitrary: found)
  case Nil
  show ?case by simp
next
  case (Cons x items)
  show ?case
  proof (cases "parse_finding x path")
    case (Inl e)
    then show ?thesis using Cons.IH [of found] by simp
  next
    case (Inr f)
    then show ?thesis using Cons.IH [of "found @ [f]"] by simp
  qed
qed

lemma filter_good_items:
  assumes "\<forall>x\<in>set items. \<exists>f. parse_finding x path = Inr f"
  shows "filter (\<lambda>r. \<not> isl r) (map (\<lambda>x. parse_finding x path) items) =
         map (\<lambda>x. parse_finding x path) items"
  using assms by (induction items) auto

lemma parse_items_one_bad:
  assumes bad: "parse_finding bad path = Inl e"
    and good: "\<forall>x\<in>set (xs @ ys). \<exists>f. parse_finding x path = Inr f"
  shows "map Inr (parse_items (xs @ bad # ys) path []) =
         map (\<lambda>x. parse_finding x path) (xs @ ys)"
proof -
  have gx: "\<forall>x\<in>set xs. \<exists>f. parse_finding x path = Inr f"
    and gy: "\<forall>x\<in>set ys. \<exists>f. parse_finding x path = Inr f"
    using good by auto
  show ?thesis
    by (simp add: parse_items_results bad filter_good_items [OF gx] filter_good_items [OF gy])
qed

text \<open>
  Claim C1. The decoded reply is a list of items, or a dict whose \<^verbatim>\<open>findings\<close> is one; one
  item makes \<^verbatim>\<open>_parse_finding\<close> raise and every other item gives a finding. Then the result
  is the list of the findings of the other items, in their order.
\<close>

theorem parse_api_response_skips_bad_item:
  assumes bad: "parse_finding bad path = Inl e"
    and good: "\<forall>x\<in>set (xs @ ys). \<exists>f. parse_finding x path = Inr f"
    and extr: "extract_json response = Some text"
    and data: "loads text = Inr data"
    and shape: "data = JArray (xs @ bad # ys)
                \<or> (\<exists>d. data = JObject d \<and> map_of d ''findings'' = Some (JArray (xs @ bad # ys)))"
  shows "\<exists>fs. parse_api_response loads response path = Inr fs
           \<and> map Inr fs = map (\<lambda>x. parse_finding x path) (xs @ ys)"
proof -
  have "parse_api_response loads response path = Inr (parse_items (xs @ bad # ys) path [])"
    using extr data shape
    by (auto simp: parse_api_response_def dict_get_def py_iter_def)
  then show ?thesis
    using parse_items_one_bad [OF bad good] by simp
qed

lemma extract_json_one_bad:
  \<open>extract_json ''{"findings": [{}, {"severity": {}}, {}]}'' =
     Some ''{"findings": [{}, {"severity": {}}, {}]}''\<close>
  by code_simp

text \<open>
  The theorem at a reply of three items, the second with a dict as its severity: the
  result is the two findings of the first and the third item.
\<close>

theorem parse_api_response_skips_bad_item_witness:
  \<open>\<exists>f. parse_finding (JObject []) ''a.py'' = Inr f \<and>
     parse_api_response
       (decoder_of
          [(''{"findings": [{}, {"severity": {}}, {}]}'',
            JObject [(''findings'',
              JArray [JObject [], JObject [(''severity'', JObject [])], JObject []])])])
       ''{"findings": [{}, {"severity": {}}, {}]}'' ''a.py'' = Inr [f, f]\<close>
proof -
  let ?loads = \<open>decoder_of
          [(''{"findings": [{}, {"severity": {}}, {}]}'',
            JObject [(''findings'',
              JArray [JObject [], JObject [(''severity'', JObject [])], JObject []])])]\<close>
  have bad: "parse_finding (JObject [(''severity'', JObject [])]) ''a.py'' = Inl AttributeError"
    by (simp add: parse_finding_def dict_get_def value_lower_def)
  have good: "\<forall>x\<in>set ([JObject []] @ [JObject []]). \<exists>f. parse_finding x ''a.py'' = Inr f"
    by (simp add: parse_finding_def dict_get_def value_lower_def value_upper_def)
  have data: \<open>?loads ''{"findings": [{}, {"severity": {}}, {}]}'' =
        Inr (JObject [(''findings'',
              JArray [JObject [], JObject [(''severity'', JObject [])], JObject []])])\<close>
    by (simp add: decoder_of_def)
  show ?thesis
    using parse_api_response_skips_bad_item
      [where loads = ?loads, OF bad good extract_json_one_bad data]
    by (auto simp: parse_finding_def dict_get_def value_lower_def value_upper_def)
qed

subsection \<open>Exceptions that leave \<^verbatim>\<open>_parse_api_response\<close>\<close>

lemma parse_api_response_malformed_json:
  "extract_json response = Some text \<Longrightarrow> loads text = Inl JSONDecodeError \<Longrightarrow>
   parse_api_response loads response path = Inr []"
  by (simp add: parse_api_response_def)

lemma parse_api_response_other_shape:
  "extract_json response = Some text \<Longrightarrow> loads text = Inr data \<Longrightarrow>
   (\<forall>d. data \<noteq> JObject d) \<Longrightarrow> (\<forall>xs. data \<noteq> JArray xs) \<Longrightarrow>
   parse_api_response loads response path = Inr []"
  by (cases data) (simp_all add: parse_api_response_def)

text \<open>
  The function raises in two cases only: the decoder raises something else than
  \<^verbatim>\<open>JSONDecodeError\<close>, or the reply is a dict whose \<^verbatim>\<open>findings\<close> is \<^verbatim>\<open>null\<close>, a boolean or
  a number, on which the \<^verbatim>\<open>for\<close> loop raises \<^verbatim>\<open>TypeError\<close>.
\<close>

lemma parse_api_response_raises_iff:
  assumes "extract_json response = Some text"
  shows "parse_api_response loads response path = Inl e \<longleftrightarrow>
     (loads text = Inl e \<and> e \<noteq> JSONDecodeError)
   \<or> (e = TypeError \<and>
        (\<exists>d v. loads text = Inr (JObject d) \<and> map_of d ''findings'' = Some v
           \<and> (v = JNull \<or> (\<exists>b. v = JBool b) \<or> (\<exists>n. v = JInt n) \<or> (\<exists>x. v = JFloat x))))"
proof (cases "loads text")
  case (Inl e')
  with assms show ?thesis by (auto simp: parse_api_response_def)
next
  case (Inr data)
  show ?thesis
  proof (cases data)
    case (JObject d)
    show ?thesis
    proof (cases "map_of d ''findings''")
      case None
      with assms Inr JObject show ?thesis
        by (simp add: parse_api_response_def dict_get_def py_iter_def)
    next
      case (Some v)
      with assms Inr JObject show ?thesis
        by (cases v) (auto simp: parse_api_response_def dict_get_def py_iter_def)
    qed
  qed (use assms Inr in \<open>simp_all add: parse_api_response_def py_iter_def\<close>)
qed

text \<open>
  Claim C2 fails on the reply \<^verbatim>\<open>{"findings": 5}\<close>: the text is valid JSON, the decoded value
  is a dict, and \<^verbatim>\<open>TypeError\<close> leaves the function.
\<close>

theorem parse_api_response_findings_not_iterable:
  \<open>parse_api_response
     (decoder_of [(''{"findings": 5}'', JObject [(''findings'', JInt 5)])])
     ''{"findings": 5}'' ''a.py'' = Inl TypeError\<close>
  by code_simp

section \<open>Properties of the summary\<close>

lemma count_by_severity:
  "length (filter (\<lambda>f. severity f = CRITICAL) fs) + length (filter (\<lambda>f. severity f = HIGH) fs)
   + length (filter (\<lambda>f. severity f = MEDIUM) fs) + length (filter (\<lambda>f. severity f = LOW) fs)
   + length (filter (\<lambda>f. severity f = INFO) fs) = length fs"
proof (induction fs)
  case Nil
  show ?case by simp
next
  case (Cons f fs)
  then show ?case by (cases "severity f") simp_all
qed

lemma count_by_type:
  "length (filter (\<lambda>f. type f = SECURITY) fs) + length (filter (\<lambda>f. type f = BUG) fs)
   + length (filter (\<lambda>f. type f = QUALITY) fs) + length (filter (\<lambda>f. type f = PERFORMANCE) fs)
   + length (filter (\<lambda>f. type f = ACCESSIBILITY) fs) = length fs"
proof (induction fs)
  case Nil
  show ?case by simp
next
  case (Cons f fs)
  then show ?case by (cases "type f") simp_all
qed

lemma summary_by_severity:
  "entry (get_summary r) ''findings_by_severity'' =
     JObject
       [(''critical'', JInt (int (length (filter (\<lambda>f. severity f = CRITICAL) (findings r))))),
        (''high'', JInt (int (length (filter (\<lambda>f. severity f = HIGH) (findings r))))),
        (''medium'', JInt (int (length (filter (\<lambda>f. severity f = MEDIUM) (findings r))))),
        (''low'', JInt (int (length (filter (\<lambda>f. severity f = LOW) (findings r))))),
        (''info'', JInt (int (length (filter (\<lambda>f. severity f = INFO) (findings r)))))]"
  by (simp add: get_summary_def entry_def dict_get_def Severity_members_def
      get_findings_by_severity_def)

lemma summary_by_type:
  "entry (get_summary r) ''findings_by_type'' =
     JObject
       [(''security'', JInt (int (length (filter (\<lambda>f. type f = SECURITY) (findings r))))),
        (''bug'', JInt (int (length (filter (\<lambda>f. type f = BUG) (findings r))))),
        (''quality'', JInt (int (length (filter (\<lambda>f. type f = QUALITY) (findings r))))),
        (''performance'', JInt (int (length (filter (\<lambda>f. type f = PERFORMANCE) (findings r))))),
        (''accessibility'',
           JInt (int (length (filter (\<lambda>f. type f = ACCESSIBILITY) (findings r)))))]"
  by (simp add: get_summary_def entry_def dict_get_def FindingType_members_def
      get_findings_by_type_def)

text \<open>
  Claim C7. The summary's \<^verbatim>\<open>total_findings\<close> is the number of findings, and the counts of
  the breakdown by severity and the counts of the breakdown by type each add up to it.
\<close>

theorem get_summary_totals:
  "entry (get_summary r) ''total_findings'' = JInt (int (length (findings r)))
   \<and> sum_counts (entry (get_summary r) ''findings_by_severity'') = int (length (findings r))
   \<and> sum_counts (entry (get_summary r) ''findings_by_type'') = int (length (findings r))"
proof (intro conjI)
  show "entry (get_summary r) ''total_findings'' = JInt (int (length (findings r)))"
    by (simp add: get_summary_def entry_def dict_get_def)
  show "sum_counts (entry (get_summary r) ''findings_by_severity'') = int (length (findings r))"
    using count_by_severity [of "findings r"]
    by (simp add: summary_by_severity sum_counts_def count_of_def)
  show "sum_counts (entry (get_summary r) ''findings_by_type'') = int (length (findings r))"
    using count_by_type [of "findings r"]
    by (simp add: summary_by_type sum_counts_def count_of_def)
qed

section \<open>Properties of the call with retries\<close>

lemma strip_blank:
  assumes "\<forall>c\<in>set code. isspace c"
  shows "strip code = []"
proof -
  from assms have d: "dropWhile isspace code = []" by simp
  show ?thesis unfolding strip_def d by simp
qed

text \<open>
  Claim C6. For a code that is empty or all whitespace, \<^verbatim>\<open>analyze_code\<close> returns no finding
  and leaves the world as it is: no call, no sleep.
\<close>

theorem analyze_code_blank:
  "\<forall>c\<in>set code. isspace c \<Longrightarrow>
   analyze_code self create loads code language file_name analysis_type w = ([], w)"
  by (simp add: analyze_code_def strip_blank)

text \<open>The theorem at a code of blanks and a newline, with a client that would answer.\<close>

theorem analyze_code_blank_witness:
  "analyze_code \<lparr> api_key = ''k'', model = ''m'', timeout = 30, max_retries = 3 \<rparr>
     (\<lambda>n p. Response (Some ''[]'')) (\<lambda>t. Inr (JArray []))
     '' \<newline>  '' ''python'' ''a.py'' ''security'' \<lparr> calls = [], sleeps = [] \<rparr>
   = ([], \<lparr> calls = [], sleeps = [] \<rparr>)"
  using analyze_code_blank [of "'' \<newline>  ''"]
  by (simp add: isspace_def)

text \<open>
  The loop when every call raises: one call per attempt, and after the attempt \<open>i\<close> a sleep
  of \<open>2 ^ i\<close>, except after the last one.
\<close>

lemma attempts_all_raise:
  assumes "\<forall>i. k \<le> i \<and> i < n \<longrightarrow> create (length (calls w) + (i - k)) prompt = Raises"
    and "int n = max_retries self"
    and "k \<le> n"
  shows "attempts self create loads prompt file_name [k..<n] w =
     ([], w\<lparr>calls := calls w @ replicate (n - k) prompt,
             sleeps := sleeps w @ map (\<lambda>i. 2 ^ i) [k..<n - 1]\<rparr>)"
  using assms
proof (induction "n - k" arbitrary: k w)
  case 0
  then show ?case by simp
next
  case (Suc m)
  then have kn: "k < n" by simp
  then have upt: "[k..<n] = k # [Suc k..<n]" by (simp add: upt_conv_Cons)
  have first: "create (length (calls w)) prompt = Raises"
    using Suc.prems(1) kn by force
  show ?case
  proof (cases "Suc k < n")
    case True
    let ?w = "w\<lparr>calls := calls w @ [prompt], sleeps := sleeps w @ [2 ^ k]\<rparr>"
    have cond: "int k < max_retries self - 1"
      using True Suc.prems(2) by linarith
    have "\<forall>i. Suc k \<le> i \<and> i < n \<longrightarrow> create (length (calls ?w) + (i - Suc k)) prompt = Raises"
    proof (intro allI impI)
      fix i assume i: "Suc k \<le> i \<and> i < n"
      then have eq: "length (calls ?w) + (i - Suc k) = length (calls w) + (i - k)"
        by (simp, arith)
      have "create (length (calls w) + (i - k)) prompt = Raises"
        using Suc.prems(1) i by (metis Suc_leD)
      then show "create (length (calls ?w) + (i - Suc k)) prompt = Raises"
        unfolding eq .
    qed
    from Suc.hyps(1) [OF _ this Suc.prems(2)] Suc.hyps(2) True
    have IH: "attempts self create loads prompt file_name [Suc k..<n] ?w =
       ([], ?w\<lparr>calls := calls ?w @ replicate (n - Suc k) prompt,
               sleeps := sleeps ?w @ map (\<lambda>i. 2 ^ i) [Suc k..<n - 1]\<rparr>)"
      by simp
    have r: "replicate (n - k) prompt = prompt # replicate (n - Suc k) prompt"
      using kn by (metis Suc_diff_Suc replicate_Suc)
    have s: "[k..<n - Suc 0] = k # [Suc k..<n - Suc 0]"
      using True by (simp add: upt_conv_Cons)
    show ?thesis
      by (simp add: upt first cond IH r s Let_def)
  next
    case False
    with kn have n: "n = Suc k" by simp
    have cond: "\<not> int k < max_retries self - 1"
      using n Suc.prems(2) by linarith
    show ?thesis
      by (simp add: n first cond Let_def)
  qed
qed

text \<open>
  Claim C5. With \<^verbatim>\<open>max_retries = 3\<close>, a code that is not blank and a client that raises on
  the next three calls, \<^verbatim>\<open>analyze_code\<close> returns no finding, having made three calls and
  two sleeps, of 1 and then 2 seconds.
\<close>

theorem analyze_code_three_failures:
  assumes retries: "max_retries self = 3"
    and code: "strip code \<noteq> []"
    and fails: "\<forall>i<3. create (length (calls w) + i)
                  (get_prompt analysis_type file_name code language) = Raises"
  shows "analyze_code self create loads code language file_name analysis_type w =
     ([], w\<lparr>calls := calls w @ replicate 3 (get_prompt analysis_type file_name code language),
             sleeps := sleeps w @ [1, 2]\<rparr>)"
proof -
  let ?p = "get_prompt analysis_type file_name code language"
  have ne: "code \<noteq> []" using code by (auto simp: strip_def)
  have "attempts self create loads ?p file_name [0..<3] w =
     ([], w\<lparr>calls := calls w @ replicate (3 - 0) ?p,
             sleeps := sleeps w @ map (\<lambda>i. 2 ^ i) [0..<3 - 1]\<rparr>)"
    using fails retries by (intro attempts_all_raise) auto
  moreover have "map (\<lambda>i. 2 ^ i) [0..<3 - 1] = [1, 2 :: int]"
    by code_simp
  ultimately show ?thesis
    using retries code ne by (simp add: analyze_code_def)
qed

text \<open>The theorem at the code \<^verbatim>\<open>x = 1\<close> and a client that always raises.\<close>

theorem analyze_code_three_failures_witness:
  "analyze_code \<lparr> api_key = ''k'', model = ''m'', timeout = 30, max_retries = 3 \<rparr>
     (\<lambda>n p. Raises) (\<lambda>t. Inr (JArray []))
     ''x = 1'' ''python'' ''a.py'' ''bugs'' \<lparr> calls = [], sleeps = [] \<rparr>
   = ([], \<lparr> calls = replicate 3 (get_prompt ''bugs'' ''a.py'' ''x = 1'' ''python''),
            sleeps = [1, 2] \<rparr>)"
proof -
  have "strip ''x = 1'' \<noteq> []" by code_simp
  from analyze_code_three_failures [where create = "\<lambda>n p. Raises"
      and self = "\<lparr> api_key = ''k'', model = ''m'', timeout = 30, max_retries = 3 \<rparr>"
      and w = "\<lparr> calls = [], sleeps = [] \<rparr>", OF _ this]
  show ?thesis by simp
qed

section \<open>Properties of the prompts\<close>

lemma map_of_prompts:
  "map_of prompts s =
     (if s = ''security'' then Some get_security_prompt
      else if s = ''bugs'' then Some get_bug_detection_prompt
      else if s = ''quality'' then Some get_quality_prompt
      else if s = ''comprehensive'' then Some get_comprehensive_prompt else None)"
  unfolding prompts_def by simp

lemma get_prompt_cases:
  "get_prompt analysis_type file_name code language =
     (if lower analysis_type = ''security'' then get_security_prompt file_name code language
      else if lower analysis_type = ''bugs'' then get_bug_detection_prompt file_name code language
      else if lower analysis_type = ''quality'' then get_quality_prompt file_name code language
      else get_comprehensive_prompt file_name code language)"
  by (simp add: get_prompt_def map_of_prompts)

lemma template_embeds:
  assumes "prompt = head @ ''```'' @ language @ ''\<newline>'' @ code @ ''\<newline>'' @ ''```\<newline>'' @
                    checks @ response_format @ example"
  shows "\<exists>pre post a b.
     prompt = pre @ ''```'' @ language @ ''\<newline>'' @ code @ ''\<newline>```'' @ post
     \<and> post = a @ response_format @ b"
proof -
  have "prompt = head @ ''```'' @ language @ ''\<newline>'' @ code @ ''\<newline>```'' @
                 ((''\<newline>'' @ checks) @ response_format @ example)"
    using assms by simp
  then show ?thesis by blast
qed

lemma security_embeds:
  "\<exists>pre post a b.
     get_security_prompt file_name code language =
       pre @ ''```'' @ language @ ''\<newline>'' @ code @ ''\<newline>```'' @ post
     \<and> post = a @ response_format @ b"
  by (rule template_embeds [where checks = security_checks and example = security_example])
     (simp add: get_security_prompt_def)

lemma bug_detection_embeds:
  "\<exists>pre post a b.
     get_bug_detection_prompt file_name code language =
       pre @ ''```'' @ language @ ''\<newline>'' @ code @ ''\<newline>```'' @ post
     \<and> post = a @ response_format @ b"
  by (rule template_embeds
        [where checks = bug_detection_checks and example = bug_detection_example])
     (simp add: get_bug_detection_prompt_def)

lemma quality_embeds:
  "\<exists>pre post a b.
     get_quality_prompt file_name code language =
       pre @ ''```'' @ language @ ''\<newline>'' @ code @ ''\<newline>```'' @ post
     \<and> post = a @ response_format @ b"
  by (rule template_embeds [where checks = quality_checks and example = quality_example])
     (simp add: get_quality_prompt_def)

lemma comprehensive_embeds:
  "\<exists>pre post a b.
     get_comprehensive_prompt file_name code language =
       pre @ ''```'' @ language @ ''\<newline>'' @ code @ ''\<newline>```'' @ post
     \<and> post = a @ response_format @ b"
  by (rule template_embeds
        [where checks = comprehensive_checks and example = comprehensive_example])
     (simp add: get_comprehensive_prompt_def)

text \<open>
  Claim C8. The lower-cased analysis type selects the template, and any type other than the
  four names gives the comprehensive one. Whatever the type, the prompt holds the code
  between a fence tagged with the language and a closing fence, and after it the lines
  \<^verbatim>\<open>Format your response as JSON with this structure:\<close>, an opening brace and the opening of
  the \<^verbatim>\<open>findings\<close> array.
\<close>

theorem get_prompt_template:
  \<open>(lower analysis_type = ''security'' \<longrightarrow>
      get_prompt analysis_type file_name code language =
        get_security_prompt file_name code language)
   \<and> (lower analysis_type = ''bugs'' \<longrightarrow>
      get_prompt analysis_type file_name code language =
        get_bug_detection_prompt file_name code language)
   \<and> (lower analysis_type = ''quality'' \<longrightarrow>
      get_prompt analysis_type file_name code language =
        get_quality_prompt file_name code language)
   \<and> (lower analysis_type = ''comprehensive'' \<longrightarrow>
      get_prompt analysis_type file_name code language =
        get_comprehensive_prompt file_name code language)
   \<and> (lower analysis_type \<notin> {''security'', ''bugs'', ''quality'', ''comprehensive''} \<longrightarrow>
      get_prompt analysis_type file_name code language =
        get_comprehensive_prompt file_name code language)
   \<and> (\<exists>pre post a b.
        get_prompt analysis_type file_name code language =
          pre @ ''```'' @ language @ ''\<newline>'' @ code @ ''\<newline>```'' @ post
        \<and> post = a @
            ''Format your response as JSON with this structure:\<newline>{\<newline>  "findings": [\<newline>'' @ b)\<close>
proof -
  have lit: \<open>response_format =
      ''Format your response as JSON with this structure:\<newline>{\<newline>  "findings": [\<newline>''\<close>
    by (simp add: response_format_def)
  have "\<exists>pre post a b.
        get_prompt analysis_type file_name code language =
          pre @ ''```'' @ language @ ''\<newline>'' @ code @ ''\<newline>```'' @ post
        \<and> post = a @ response_format @ b"
    using security_embeds [of file_name code language]
      bug_detection_embeds [of file_name code language]
      quality_embeds [of file_name code language]
      comprehensive_embeds [of file_name code language]
    by (simp add: get_prompt_cases)
  then show ?thesis
    unfolding lit by (simp add: get_prompt_cases)
qed

text \<open>The theorem at the four names in several cases of letters and at an unknown type.\<close>

theorem get_prompt_template_witness:
  "get_prompt ''SECURITY'' ''a.py'' ''x = 1'' ''python'' =
     get_security_prompt ''a.py'' ''x = 1'' ''python''
   \<and> get_prompt ''Bugs'' ''a.py'' ''x = 1'' ''python'' =
     get_bug_detection_prompt ''a.py'' ''x = 1'' ''python''
   \<and> get_prompt ''quality'' ''a.py'' ''x = 1'' ''python'' =
     get_quality_prompt ''a.py'' ''x = 1'' ''python''
   \<and> get_prompt ''Comprehensive'' ''a.py'' ''x = 1'' ''python'' =
     get_comprehensive_prompt ''a.py'' ''x = 1'' ''python''
   \<and> get_prompt ''fast'' ''a.py'' ''x = 1'' ''python'' =
     get_comprehensive_prompt ''a.py'' ''x = 1'' ''python''"
proof -
  have l: "lower ''SECURITY'' = ''security''" "lower ''Bugs'' = ''bugs''"
    "lower ''quality'' = ''quality''" "lower ''Comprehensive'' = ''comprehensive''"
    "lower ''fast'' = ''fast''"
    by (simp_all add: lower_def lower_char_def char_of_eq_iff)
  show ?thesis
    using get_prompt_template [of "''SECURITY''" "''a.py''" "''x = 1''" "''python''"]
      get_prompt_template [of "''Bugs''" "''a.py''" "''x = 1''" "''python''"]
      get_prompt_template [of "''quality''" "''a.py''" "''x = 1''" "''python''"]
      get_prompt_template [of "''Comprehensive''" "''a.py''" "''x = 1''" "''python''"]
      get_prompt_template [of "''fast''" "''a.py''" "''x = 1''" "''python''"]
    unfolding l by simp
qed

section \<open>Properties of the extraction\<close>

subsection \<open>The matcher, one pattern at a time\<close>

declare rmatch.simps [simp del]
















subsection \<open>Texts without a fence\<close>

lemma has_fence_iff: "has_fence s \<longleftrightarrow> (\<exists>p q. s = p @ ''```'' @ q)"
proof (induction s)
  case Nil
  show ?case by simp
next
  case (Cons c s)
  show ?case
  proof
    assume "has_fence (c # s)"
    then consider "take 3 (c # s) = ''```''" | "has_fence s" by auto
    then show "\<exists>p q. c # s = p @ ''```'' @ q"
    proof cases
      case 1
      then have "c # s = [] @ ''```'' @ drop 3 (c # s)"
        by (metis append_Nil append_take_drop_id)
      then show ?thesis by blast
    next
      case 2
      with Cons.IH obtain p q where "s = p @ ''```'' @ q" by blast
      then have "c # s = (c # p) @ ''```'' @ q" by simp
      then show ?thesis by blast
    qed
  next
    assume "\<exists>p q. c # s = p @ ''```'' @ q"
    then obtain p q where pq: "c # s = p @ ''```'' @ q" by blast
    show "has_fence (c # s)"
    proof (cases p)
      case Nil
      with pq show ?thesis by auto
    next
      case (Cons d p')
      with pq have "s = p' @ ''```'' @ q" by simp
      with Cons.IH show ?thesis by auto
    qed
  qed
qed






subsection \<open>The fenced pattern at the opening fence of a block\<close>






subsection \<open>The search\<close>

















end
